theory Spec2Isabelle
  imports Main "HOL-Library.Word"
begin

section \<open>Values that cross the JNI boundary\<close>

text \<open>
  The native methods of \<^verbatim>\<open>libcore_icu_NativeDecimalFormat.cpp\<close> receive Java values:
  a \<^verbatim>\<open>jchar\<close> is an unsigned 16-bit code unit, a \<^verbatim>\<open>jint\<close> a 32-bit integer read as signed (\<open>sint\<close>), a
  \<^verbatim>\<open>jlong\<close> a 64-bit integer read as signed, a \<^verbatim>\<open>jdouble\<close> the 64 bits of an IEEE double (the
  file never computes with one, it only passes it along), and a \<^verbatim>\<open>jstring\<close> a reference
  to a sequence of code units, or the null reference.
\<close>

type_synonym jchar = "16 word"
type_synonym jint = "32 word"
type_synonym jlong = "64 word"
type_synonym jdouble = "64 word"
type_synonym jstring = "jchar list option"
type_synonym UChar32 = "32 word"

text \<open>
  ICU's \<^verbatim>\<open>UErrorCode\<close>: \<^verbatim>\<open>U_ZERO_ERROR\<close> is 0, warnings are negative, errors positive;
  \<^verbatim>\<open>U_SUCCESS(x)\<close> is \<^verbatim>\<open>x <= U_ZERO_ERROR\<close>.
\<close>

type_synonym UErrorCode = int

definition U_ZERO_ERROR :: UErrorCode where
  "U_ZERO_ERROR = 0"

definition U_SUCCESS :: "UErrorCode \<Rightarrow> bool" where
  "U_SUCCESS x = (x \<le> U_ZERO_ERROR)"

definition U_FAILURE :: "UErrorCode \<Rightarrow> bool" where
  "U_FAILURE x = (x > U_ZERO_ERROR)"

text \<open>
  The three ways in which the file builds an ICU \<^verbatim>\<open>UnicodeString\<close>: from the characters
  of a Java string held by a \<^verbatim>\<open>ScopedJavaUnicodeString\<close>, from one code unit
  (\<^verbatim>\<open>UnicodeString(UChar)\<close>), and from one code point (\<^verbatim>\<open>UnicodeString(UChar32)\<close>, the
  overload that an \<^verbatim>\<open>int\<close> argument such as \<^verbatim>\<open>zeroDigit + 1\<close> selects).
\<close>

datatype UnicodeString =
    UnicodeString_jstring jstring
  | UnicodeString_UChar jchar
  | UnicodeString_UChar32 UChar32

text \<open>
  The Java exceptions the file can leave pending. A native method does not stop when an
  exception is raised through JNI: the exception stays pending in the environment, the
  C++ code runs on to its \<^verbatim>\<open>return\<close>, and the Java caller then sees the exception
  instead of the returned value.
\<close>

datatype jthrowable =
    NullPointerException
  | IcuException string UErrorCode

record JNIEnv =
  pending :: "jthrowable option"

text \<open>Raising an exception while another one is pending replaces the pending one.\<close>

definition jniThrow :: "jthrowable \<Rightarrow> JNIEnv \<Rightarrow> JNIEnv" where
  "jniThrow e env = env\<lparr>pending := Some e\<rparr>"

datatype 'a outcome = Thrown jthrowable | Returned 'a

definition java_outcome :: "JNIEnv \<times> 'a \<Rightarrow> 'a outcome" where
  "java_outcome r = (case pending (fst r) of Some e \<Rightarrow> Thrown e | None \<Rightarrow> Returned (snd r))"

text \<open>
  Modelled from the spec: \<^verbatim>\<open>ScopedJavaUnicodeString\<close> is declared in a header that is not
  among the sources. The spec leaves the marshalling of strings to the boundary layer;
  the model follows the use the file makes of the class: \<^verbatim>\<open>valid()\<close> is false exactly
  for the null reference, for which the constructor leaves a \<^verbatim>\<open>NullPointerException\<close>
  pending, and \<^verbatim>\<open>unicodeString()\<close> is the string built from the reference.
\<close>

record ScopedJavaUnicodeString =
  mString :: jstring

definition ScopedJavaUnicodeString :: "JNIEnv \<Rightarrow> jstring \<Rightarrow> JNIEnv \<times> ScopedJavaUnicodeString" where
  "ScopedJavaUnicodeString env s =
     (case s of
        None \<Rightarrow> (jniThrow NullPointerException env, \<lparr>mString = s\<rparr>)
      | Some cs \<Rightarrow> (env, \<lparr>mString = s\<rparr>))"

definition valid :: "ScopedJavaUnicodeString \<Rightarrow> bool" where
  "valid src = (mString src \<noteq> None)"

definition unicodeString :: "ScopedJavaUnicodeString \<Rightarrow> UnicodeString" where
  "unicodeString src = UnicodeString_jstring (mString src)"

text \<open>
  Modelled from the spec: \<^verbatim>\<open>maybeThrowIcuException\<close> is defined in a file that is not
  among the sources. The spec has the boundary layer translate internal error codes into
  the caller's exception convention; the file uses the result as "an exception was
  raised" (\<^verbatim>\<open>if (maybeThrowIcuException(...)) return NULL\<close>). A failing status raises, a
  succeeding one does not.
\<close>

definition maybeThrowIcuException :: "JNIEnv \<Rightarrow> string \<Rightarrow> UErrorCode \<Rightarrow> JNIEnv \<times> bool" where
  "maybeThrowIcuException env function status =
     (if U_SUCCESS status then (env, False)
      else (jniThrow (IcuException function status) env, True))"

section \<open>The symbol table\<close>

text \<open>
  \<^verbatim>\<open>DecimalFormatSymbols::ENumberFormatSymbol\<close>: the symbol slots of ICU. The file names
  all of them but the plus sign, the pad escape and the significant digit.
\<close>

datatype ENumberFormatSymbol =
    kDecimalSeparatorSymbol
  | kGroupingSeparatorSymbol
  | kPatternSeparatorSymbol
  | kPercentSymbol
  | kZeroDigitSymbol
  | kDigitSymbol
  | kMinusSignSymbol
  | kPlusSignSymbol
  | kCurrencySymbol
  | kIntlCurrencySymbol
  | kMonetarySeparatorSymbol
  | kExponentialSymbol
  | kPerMillSymbol
  | kPadEscapeSymbol
  | kInfinitySymbol
  | kNaNSymbol
  | kSignificantDigitSymbol
  | kMonetaryGroupingSeparatorSymbol
  | kOneDigitSymbol
  | kTwoDigitSymbol
  | kThreeDigitSymbol
  | kFourDigitSymbol
  | kFiveDigitSymbol
  | kSixDigitSymbol
  | kSevenDigitSymbol
  | kEightDigitSymbol
  | kNineDigitSymbol

text \<open>
  A \<^verbatim>\<open>DecimalFormatSymbols\<close> object holds one string per slot. \<^verbatim>\<open>setSymbol\<close> stores a
  value in one slot. What \<^verbatim>\<open>new DecimalFormatSymbols\<close> holds at first (the symbols of the
  default locale) is a parameter, \<open>newSymbols\<close>, of the functions below.
\<close>

type_synonym DecimalFormatSymbols = "ENumberFormatSymbol \<Rightarrow> UnicodeString"

definition setSymbol :: "ENumberFormatSymbol \<Rightarrow> UnicodeString \<Rightarrow> DecimalFormatSymbols \<Rightarrow> DecimalFormatSymbols" where
  "setSymbol symbol v result = result(symbol := v)"

definition getSymbol :: "DecimalFormatSymbols \<Rightarrow> ENumberFormatSymbol \<Rightarrow> UnicodeString" where
  "getSymbol result symbol = result symbol"

text \<open>
  \<^verbatim>\<open>zeroDigit + d\<close>: the \<^verbatim>\<open>jchar\<close> is promoted to \<^verbatim>\<open>int\<close> before the addition, so the
  sum is a 32-bit value and selects the code point constructor.
\<close>

definition digitPlus :: "jchar \<Rightarrow> UChar32 \<Rightarrow> UChar32" where
  "digitPlus zeroDigit d = ucast zeroDigit + d"

text \<open>
  \<^verbatim>\<open>makeDecimalFormatSymbols\<close>: seven scoped strings are built first, in the order of the
  source (each may leave a \<^verbatim>\<open>NullPointerException\<close> pending), then the slots are set
  one after the other.
\<close>

definition makeDecimalFormatSymbols ::
  "DecimalFormatSymbols \<Rightarrow> JNIEnv \<Rightarrow>
   jstring \<Rightarrow> jchar \<Rightarrow> jchar \<Rightarrow> jstring \<Rightarrow> jchar \<Rightarrow> jstring \<Rightarrow> jstring \<Rightarrow> jstring \<Rightarrow>
   jchar \<Rightarrow> jstring \<Rightarrow> jchar \<Rightarrow> jstring \<Rightarrow> jchar \<Rightarrow> jchar \<Rightarrow>
   JNIEnv \<times> DecimalFormatSymbols" where
  "makeDecimalFormatSymbols newSymbols env
     currencySymbol0 decimalSeparator digit exponentSeparator0 groupingSeparator0 infinity0
     internationalCurrencySymbol0 minusSign0 monetaryDecimalSeparator nan0 patternSeparator
     percent0 perMill zeroDigit =
   (let (env, currencySymbol) = ScopedJavaUnicodeString env currencySymbol0;
        (env, exponentSeparator) = ScopedJavaUnicodeString env exponentSeparator0;
        (env, infinity) = ScopedJavaUnicodeString env infinity0;
        (env, internationalCurrencySymbol) = ScopedJavaUnicodeString env internationalCurrencySymbol0;
        (env, nan) = ScopedJavaUnicodeString env nan0;
        (env, minusSign) = ScopedJavaUnicodeString env minusSign0;
        (env, percent) = ScopedJavaUnicodeString env percent0;
        groupingSeparator = UnicodeString_UChar groupingSeparator0;
        result = newSymbols;
        result = setSymbol kCurrencySymbol (unicodeString currencySymbol) result;
        result = setSymbol kDecimalSeparatorSymbol (UnicodeString_UChar decimalSeparator) result;
        result = setSymbol kDigitSymbol (UnicodeString_UChar digit) result;
        result = setSymbol kExponentialSymbol (unicodeString exponentSeparator) result;
        result = setSymbol kGroupingSeparatorSymbol groupingSeparator result;
        result = setSymbol kMonetaryGroupingSeparatorSymbol groupingSeparator result;
        result = setSymbol kInfinitySymbol (unicodeString infinity) result;
        result = setSymbol kIntlCurrencySymbol (unicodeString internationalCurrencySymbol) result;
        result = setSymbol kMinusSignSymbol (unicodeString minusSign) result;
        result = setSymbol kMonetarySeparatorSymbol (UnicodeString_UChar monetaryDecimalSeparator) result;
        result = setSymbol kNaNSymbol (unicodeString nan) result;
        result = setSymbol kPatternSeparatorSymbol (UnicodeString_UChar patternSeparator) result;
        result = setSymbol kPercentSymbol (unicodeString percent) result;
        result = setSymbol kPerMillSymbol (UnicodeString_UChar perMill) result;
        result = setSymbol kZeroDigitSymbol (UnicodeString_UChar32 (digitPlus zeroDigit 0)) result;
        result = setSymbol kOneDigitSymbol (UnicodeString_UChar32 (digitPlus zeroDigit 1)) result;
        result = setSymbol kTwoDigitSymbol (UnicodeString_UChar32 (digitPlus zeroDigit 2)) result;
        result = setSymbol kThreeDigitSymbol (UnicodeString_UChar32 (digitPlus zeroDigit 3)) result;
        result = setSymbol kFourDigitSymbol (UnicodeString_UChar32 (digitPlus zeroDigit 4)) result;
        result = setSymbol kFiveDigitSymbol (UnicodeString_UChar32 (digitPlus zeroDigit 5)) result;
        result = setSymbol kSixDigitSymbol (UnicodeString_UChar32 (digitPlus zeroDigit 6)) result;
        result = setSymbol kSevenDigitSymbol (UnicodeString_UChar32 (digitPlus zeroDigit 7)) result;
        result = setSymbol kEightDigitSymbol (UnicodeString_UChar32 (digitPlus zeroDigit 8)) result;
        result = setSymbol kNineDigitSymbol (UnicodeString_UChar32 (digitPlus zeroDigit 9)) result
    in (env, result))"

section \<open>The format instance\<close>

text \<open>
  A \<^verbatim>\<open>DecimalFormat\<close> object: the symbols it has adopted, and the rules ICU compiled from
  the pattern (of a type \<open>'r\<close> that the file never looks into). A handle is the address
  of such an object; the model writes the null address as \<open>None\<close> and any other address
  as the object it points to.
\<close>

record 'r DecimalFormat =
  fSymbols :: DecimalFormatSymbols
  fRules :: 'r

text \<open>
  \<^verbatim>\<open>new DecimalFormat(pattern, symbols, parseError, status)\<close>. ICU's allocator returns
  NULL when memory is exhausted (\<open>allocated\<close> is false), and then no constructor runs and
  the status stays as it was. Otherwise ICU's constructor, the parameter \<open>construct\<close>,
  compiles the pattern into rules and reports a status; the object adopts the symbols.
\<close>

definition new_DecimalFormat ::
  "bool \<Rightarrow> (UnicodeString \<Rightarrow> DecimalFormatSymbols \<Rightarrow> UErrorCode \<times> 'r) \<Rightarrow>
   UnicodeString \<Rightarrow> DecimalFormatSymbols \<Rightarrow> UErrorCode \<Rightarrow> 'r DecimalFormat option \<times> UErrorCode" where
  "new_DecimalFormat allocated construct pattern symbols status =
     (if \<not> allocated then (None, status)
      else (Some \<lparr>fSymbols = symbols, fRules = snd (construct pattern symbols)\<rparr>,
            fst (construct pattern symbols)))"

definition adoptDecimalFormatSymbols :: "DecimalFormatSymbols \<Rightarrow> 'r DecimalFormat \<Rightarrow> 'r DecimalFormat" where
  "adoptDecimalFormatSymbols symbols fmt = fmt\<lparr>fSymbols := symbols\<rparr>"

definition NativeDecimalFormat_setDecimalFormatSymbols ::
  "DecimalFormatSymbols \<Rightarrow> JNIEnv \<Rightarrow> 'r DecimalFormat \<Rightarrow>
   jstring \<Rightarrow> jchar \<Rightarrow> jchar \<Rightarrow> jstring \<Rightarrow> jchar \<Rightarrow> jstring \<Rightarrow> jstring \<Rightarrow> jstring \<Rightarrow>
   jchar \<Rightarrow> jstring \<Rightarrow> jchar \<Rightarrow> jstring \<Rightarrow> jchar \<Rightarrow> jchar \<Rightarrow>
   JNIEnv \<times> 'r DecimalFormat" where
  "NativeDecimalFormat_setDecimalFormatSymbols newSymbols env addr
     currencySymbol decimalSeparator digit exponentSeparator groupingSeparator infinity
     internationalCurrencySymbol minusSign monetaryDecimalSeparator nan patternSeparator
     percent perMill zeroDigit =
   (let (env, symbols) = makeDecimalFormatSymbols newSymbols env
          currencySymbol decimalSeparator digit exponentSeparator groupingSeparator infinity
          internationalCurrencySymbol minusSign monetaryDecimalSeparator nan patternSeparator
          percent perMill zeroDigit
    in (env, adoptDecimalFormatSymbols symbols addr))"

text \<open>
  \<^verbatim>\<open>NativeDecimalFormat_open\<close>. A null pattern returns the handle 0 at once. Otherwise
  the symbols are made and the instance is constructed; \<^verbatim>\<open>delete symbols\<close> for a NULL
  instance frees memory and changes nothing the model holds. The status is then turned
  into an exception when it is a failure, and the address of the instance is returned
  either way.
\<close>

definition NativeDecimalFormat_open ::
  "DecimalFormatSymbols \<Rightarrow> bool \<Rightarrow> (UnicodeString \<Rightarrow> DecimalFormatSymbols \<Rightarrow> UErrorCode \<times> 'r) \<Rightarrow>
   JNIEnv \<Rightarrow> jstring \<Rightarrow>
   jstring \<Rightarrow> jchar \<Rightarrow> jchar \<Rightarrow> jstring \<Rightarrow> jchar \<Rightarrow> jstring \<Rightarrow> jstring \<Rightarrow> jstring \<Rightarrow>
   jchar \<Rightarrow> jstring \<Rightarrow> jchar \<Rightarrow> jstring \<Rightarrow> jchar \<Rightarrow> jchar \<Rightarrow>
   JNIEnv \<times> 'r DecimalFormat option" where
  "NativeDecimalFormat_open newSymbols allocated construct env pattern0
     currencySymbol decimalSeparator digit exponentSeparator groupingSeparator infinity
     internationalCurrencySymbol minusSign monetaryDecimalSeparator nan patternSeparator
     percent perMill zeroDigit =
   (let status = U_ZERO_ERROR;
        (env, pattern) = ScopedJavaUnicodeString env pattern0
    in if \<not> valid pattern then (env, None)
       else
         let (env, symbols) = makeDecimalFormatSymbols newSymbols env
               currencySymbol decimalSeparator digit exponentSeparator groupingSeparator infinity
               internationalCurrencySymbol minusSign monetaryDecimalSeparator nan patternSeparator
               percent perMill zeroDigit;
             (fmt, status) = new_DecimalFormat allocated construct (unicodeString pattern) symbols status;
             (env, thrown) = maybeThrowIcuException env ''DecimalFormat::DecimalFormat'' status
         in (env, fmt))"

section \<open>Parsing\<close>

text \<open>
  A parse position (ICU's \<^verbatim>\<open>ParsePosition\<close> and \<^verbatim>\<open>java.text.ParsePosition\<close> have the
  same two fields): the index to parse from, or parsed up to, and the error index, which
  is -1 when there is no error. ICU's constructor \<^verbatim>\<open>ParsePosition(newIndex)\<close> sets the
  error index to -1.
\<close>

record ParsePosition =
  index :: jint
  errorIndex :: jint

definition getIndex :: "ParsePosition \<Rightarrow> jint" where
  "getIndex pp = index pp"

definition setIndex :: "ParsePosition \<Rightarrow> jint \<Rightarrow> ParsePosition" where
  "setIndex pp i = pp\<lparr>index := i\<rparr>"

definition getErrorIndex :: "ParsePosition \<Rightarrow> jint" where
  "getErrorIndex pp = errorIndex pp"

definition setErrorIndex :: "ParsePosition \<Rightarrow> jint \<Rightarrow> ParsePosition" where
  "setErrorIndex pp i = pp\<lparr>errorIndex := i\<rparr>"

definition ParsePosition_new :: "jint \<Rightarrow> ParsePosition" where
  "ParsePosition_new newIndex = \<lparr>index = newIndex, errorIndex = - 1\<rparr>"

text \<open>
  ICU's \<^verbatim>\<open>Formattable\<close>, as the file observes it: its type tag, what its accessors
  return, and what \<^verbatim>\<open>getDecimalNumber(status)\<close> yields (the status it sets and the
  characters of the decimal number, which ICU terminates with a NUL).
\<close>

datatype Formattable_Type = kDate | kDouble | kLong | kString | kArray | kInt64 | kObject

record Formattable =
  getType :: Formattable_Type
  getDouble :: jdouble
  getLong :: "32 word"
  getInt64 :: "64 word"
  getDecimalNumber :: "UErrorCode \<times> string"

text \<open>
  The Java objects a parse returns; the null reference is \<open>None\<close>.

  Modelled from the spec: \<^verbatim>\<open>doubleValueOf\<close> and \<^verbatim>\<open>longValueOf\<close> are declared in a header
  that is not among the sources; the spec has the boundary layer marshal result values
  (double, integer, exact decimal as a string) back out, so they box their argument.
  \<^verbatim>\<open>newBigDecimal\<close> is in the file: it copies \<open>len\<close> characters of \<open>value\<close> into a Java
  string and constructs a \<^verbatim>\<open>BigDecimal\<close> from it.
\<close>

datatype jobject = Double jdouble | Long jlong | BigDecimal string

definition doubleValueOf :: "jdouble \<Rightarrow> jobject option" where
  "doubleValueOf d = Some (Double d)"

definition longValueOf :: "jlong \<Rightarrow> jobject option" where
  "longValueOf l = Some (Long l)"

definition newBigDecimal :: "string \<Rightarrow> nat \<Rightarrow> jobject option" where
  "newBigDecimal v len = Some (BigDecimal (take len v))"

text \<open>
  \<^verbatim>\<open>strncmp(data, lit, n) == 0\<close> on NUL-terminated strings, each given by its characters
  before the NUL: the first \<open>n\<close> characters agree, or both strings end before that and
  agree altogether.
\<close>

definition strncmp_0 :: "string \<Rightarrow> string \<Rightarrow> nat \<Rightarrow> bool" where
  "strncmp_0 data lit n = (take n data = take n lit)"

text \<open>
  \<^verbatim>\<open>NativeDecimalFormat_parse\<close>. \<open>fmt_parse\<close> is \<^verbatim>\<open>DecimalFormat::parse\<close> of the instance
  behind the handle: from the text and a parse position it yields the parsed value and
  the position it has updated. The case distinction on the reference hands the code
  units to \<^verbatim>\<open>GetStringLength\<close>; for the null reference the source returns at
  \<^verbatim>\<open>!src.valid()\<close>. \<^verbatim>\<open>GetStringLength\<close> of a Java string is the number of its
  code units, which is below \<open>2 ^ 31\<close>. \<^verbatim>\<open>longValueOf(env, res.getLong())\<close> widens the
  32-bit value with its sign.
\<close>

definition NativeDecimalFormat_parse ::
  "(UnicodeString \<Rightarrow> ParsePosition \<Rightarrow> Formattable \<times> ParsePosition) \<Rightarrow>
   JNIEnv \<Rightarrow> jstring \<Rightarrow> ParsePosition \<Rightarrow> bool \<Rightarrow> JNIEnv \<times> ParsePosition \<times> jobject option" where
  "NativeDecimalFormat_parse fmt_parse env text position parseBigDecimal =
   (let (env, src) = ScopedJavaUnicodeString env text
    in case text of
         None \<Rightarrow> (env, position, None)
       | Some cs \<Rightarrow>
           if \<not> valid src then (env, position, None)
           else
             let parsePos = getIndex position
             in if sint parsePos < 0 \<or> sint parsePos > int (length cs) then (env, position, None)
                else
                  let (res, pp) = fmt_parse (unicodeString src) (ParsePosition_new parsePos)
                  in if getErrorIndex pp = - 1 then
                       let position = setIndex position (getIndex pp)
                       in if parseBigDecimal then
                            let status = fst (getDecimalNumber res);
                                str = snd (getDecimalNumber res)
                            in if U_SUCCESS status then
                                 let len = length str;
                                     data = str
                                 in if strncmp_0 data ''NaN'' 3 \<or>
                                       strncmp_0 data ''Inf'' 3 \<or>
                                       strncmp_0 data ''-Inf'' 4 then
                                      (env, position, doubleValueOf (getDouble res))
                                    else (env, position, newBigDecimal data len)
                               else (env, position, None)
                          else
                            (case getType res of
                               kDouble \<Rightarrow> (env, position, doubleValueOf (getDouble res))
                             | kLong \<Rightarrow> (env, position, longValueOf (scast (getLong res)))
                             | kInt64 \<Rightarrow> (env, position, longValueOf (getInt64 res))
                             | _ \<Rightarrow> (env, position, None))
                     else (env, setErrorIndex position (getErrorIndex pp), None))"

section \<open>Vocabulary of the properties\<close>

text \<open>The slot of the digit \<open>d\<close>, for \<open>d\<close> from 0 to 9.\<close>

definition digitSymbol :: "nat \<Rightarrow> ENumberFormatSymbol" where
  "digitSymbol d =
     [kZeroDigitSymbol, kOneDigitSymbol, kTwoDigitSymbol, kThreeDigitSymbol, kFourDigitSymbol,
      kFiveDigitSymbol, kSixDigitSymbol, kSevenDigitSymbol, kEightDigitSymbol, kNineDigitSymbol] ! d"

text \<open>
  The two shapes of a parse result, read off the Java parse position before and after the
  call and the returned reference. A success returns a value and writes no error offset;
  a failure returns no value, leaves an error offset (the error index is not -1) and does
  not move the index.
\<close>

definition success_shape :: "ParsePosition \<Rightarrow> ParsePosition \<Rightarrow> jobject option \<Rightarrow> bool" where
  "success_shape position position' result =
     (result \<noteq> None \<and> getErrorIndex position' = getErrorIndex position)"

definition failure_shape :: "ParsePosition \<Rightarrow> ParsePosition \<Rightarrow> jobject option \<Rightarrow> bool" where
  "failure_shape position position' result =
     (result = None \<and> getErrorIndex position' \<noteq> - 1 \<and> getIndex position' = getIndex position)"

text \<open>
  What ICU hands back after a parse without error is a number: its decimal digits can be
  read, and its type tag is one of the three numeric ones.
\<close>

definition numeric_result :: "bool \<Rightarrow> Formattable \<Rightarrow> bool" where
  "numeric_result parseBigDecimal res =
     (if parseBigDecimal then U_SUCCESS (fst (getDecimalNumber res))
      else getType res = kDouble \<or> getType res = kLong \<or> getType res = kInt64)"

text \<open>
  The text of an exact decimal number: digits, with a sign, a decimal point and an
  exponent mark where needed.
\<close>

definition exact_decimal :: "string \<Rightarrow> bool" where
  "exact_decimal s = (s \<noteq> [] \<and> list_all (\<lambda>c. c \<in> set ''0123456789+-.E'') s)"

section \<open>The symbols that a call installs\<close>

lemma snd_ScopedJavaUnicodeString:
  "snd (ScopedJavaUnicodeString env s) = \<lparr>mString = s\<rparr>"
  by (simp add: ScopedJavaUnicodeString_def split: option.split)

text \<open>The table that \<^verbatim>\<open>makeDecimalFormatSymbols\<close> returns, slot by slot.\<close>

lemma makeDecimalFormatSymbols_snd:
  "snd (makeDecimalFormatSymbols newSymbols env cs ds dg es gs inf0 ics ms mds nan ps pc pm z) =
   newSymbols
     (kCurrencySymbol := UnicodeString_jstring cs,
      kDecimalSeparatorSymbol := UnicodeString_UChar ds,
      kDigitSymbol := UnicodeString_UChar dg,
      kExponentialSymbol := UnicodeString_jstring es,
      kGroupingSeparatorSymbol := UnicodeString_UChar gs,
      kMonetaryGroupingSeparatorSymbol := UnicodeString_UChar gs,
      kInfinitySymbol := UnicodeString_jstring inf0,
      kIntlCurrencySymbol := UnicodeString_jstring ics,
      kMinusSignSymbol := UnicodeString_jstring ms,
      kMonetarySeparatorSymbol := UnicodeString_UChar mds,
      kNaNSymbol := UnicodeString_jstring nan,
      kPatternSeparatorSymbol := UnicodeString_UChar ps,
      kPercentSymbol := UnicodeString_jstring pc,
      kPerMillSymbol := UnicodeString_UChar pm,
      kZeroDigitSymbol := UnicodeString_UChar32 (digitPlus z 0),
      kOneDigitSymbol := UnicodeString_UChar32 (digitPlus z 1),
      kTwoDigitSymbol := UnicodeString_UChar32 (digitPlus z 2),
      kThreeDigitSymbol := UnicodeString_UChar32 (digitPlus z 3),
      kFourDigitSymbol := UnicodeString_UChar32 (digitPlus z 4),
      kFiveDigitSymbol := UnicodeString_UChar32 (digitPlus z 5),
      kSixDigitSymbol := UnicodeString_UChar32 (digitPlus z 6),
      kSevenDigitSymbol := UnicodeString_UChar32 (digitPlus z 7),
      kEightDigitSymbol := UnicodeString_UChar32 (digitPlus z 8),
      kNineDigitSymbol := UnicodeString_UChar32 (digitPlus z 9))"
  by (simp only: makeDecimalFormatSymbols_def Let_def split_def setSymbol_def unicodeString_def
        snd_ScopedJavaUnicodeString snd_conv ScopedJavaUnicodeString.simps)

lemma open_Some_symbols:
  assumes "snd (NativeDecimalFormat_open newSymbols allocated construct env pattern0
             cs ds dg es gs inf0 ics ms mds nan ps pc pm z) = Some fmt"
  shows "fSymbols fmt = snd (makeDecimalFormatSymbols newSymbols
             (fst (ScopedJavaUnicodeString env pattern0)) cs ds dg es gs inf0 ics ms mds nan ps pc pm z)"
  using assms
  by (auto simp add: NativeDecimalFormat_open_def Let_def split_def new_DecimalFormat_def
        split: if_splits)

lemma setDecimalFormatSymbols_symbols:
  "fSymbols (snd (NativeDecimalFormat_setDecimalFormatSymbols newSymbols env addr
             cs ds dg es gs inf0 ics ms mds nan ps pc pm z)) =
   snd (makeDecimalFormatSymbols newSymbols env cs ds dg es gs inf0 ics ms mds nan ps pc pm z)"
  by (simp add: NativeDecimalFormat_setDecimalFormatSymbols_def Let_def split_def
        adoptDecimalFormatSymbols_def)

lemma sample_open_returns:
  "snd (NativeDecimalFormat_open
       (\<lambda>_. UnicodeString_UChar 0) True (\<lambda>p s. (U_ZERO_ERROR, ())) \<lparr>pending = None\<rparr>
       (Some [0x23])
       cs ds dg es gs inf0 ics ms mds nan ps pc pm z) \<noteq> None"
  by (simp add: NativeDecimalFormat_open_def Let_def split_def new_DecimalFormat_def
        ScopedJavaUnicodeString_def valid_def)

lemma digit_slot:
  assumes "d < 10"
  shows "(snd (makeDecimalFormatSymbols newSymbols env cs ds dg es gs inf0 ics ms mds nan ps pc pm z))
           (digitSymbol d) = UnicodeString_UChar32 (digitPlus z (of_nat d))"
proof -
  from assms have "d \<in> {0, 1, 2, 3, 4, 5, 6, 7, 8, 9}" by auto
  then show ?thesis
    unfolding makeDecimalFormatSymbols_snd
    by (elim insertE emptyE) (simp_all add: digitSymbol_def)
qed

text \<open>
  The sum \<^verbatim>\<open>zeroDigit + d\<close> never wraps: a 16-bit value plus a digit fits into 32 bits,
  read unsigned or signed.
\<close>

lemma uint_digitPlus:
  assumes d: "d < 10"
  shows "uint (digitPlus zeroDigit (of_nat d)) = uint zeroDigit + int d"
proof -
  have z: "uint zeroDigit < 65536" using uint_bounded [of zeroDigit] by simp
  have u: "uint (ucast zeroDigit :: 32 word) = uint zeroDigit"
    by (simp add: uint_up_ucast is_up)
  have n: "uint (of_nat d :: 32 word) = int d"
    using d by (simp add: unsigned_of_nat take_bit_eq_mod)
  show ?thesis
    unfolding digitPlus_def using z d
    by (simp add: uint_word_ariths u n)
qed

lemma sint_digitPlus:
  assumes d: "d < 10"
  shows "sint (digitPlus zeroDigit (of_nat d)) = uint zeroDigit + int d"
proof -
  have z: "uint zeroDigit < 65536" using uint_bounded [of zeroDigit] by simp
  have lo: "- 2147483648 \<le> uint zeroDigit + int d"
    using uint_ge_0 [of zeroDigit] by linarith
  have "sint (digitPlus zeroDigit (of_nat d)) = signed_take_bit 31 (uint zeroDigit + int d)"
    by (simp add: sint_uint uint_digitPlus [OF d])
  also have "\<dots> = uint zeroDigit + int d"
    using z d lo by (simp add: signed_take_bit_int_eq_self_iff)
  finally show ?thesis .
qed

text \<open>
  C8. After \<^verbatim>\<open>setDecimalFormatSymbols\<close>, and in every instance that \<^verbatim>\<open>open\<close> constructs,
  the glyph of the digit \<open>d\<close> (for \<open>d\<close> from 0 to 9) is the string made of the one code
  point \<open>zeroDigit + d\<close>: the ten glyphs are the contiguous code points from the zero
  digit on. The sum is taken in 32 bits and does not wrap back into 16 bits, so the
  glyphs after U+FFFF are the code points from U+10000 on.
\<close>

theorem digit_glyphs_contiguous:
  "d < 10 \<Longrightarrow>
   getSymbol (fSymbols (snd (NativeDecimalFormat_setDecimalFormatSymbols newSymbols env addr
       cs ds dg es gs inf0 ics ms mds nan ps pc pm zeroDigit))) (digitSymbol d)
     = UnicodeString_UChar32 (digitPlus zeroDigit (of_nat d)) \<and>
   (\<forall>fmt. snd (NativeDecimalFormat_open newSymbols allocated construct env pattern0
       cs ds dg es gs inf0 ics ms mds nan ps pc pm zeroDigit) = Some fmt \<longrightarrow>
     getSymbol (fSymbols fmt) (digitSymbol d)
       = UnicodeString_UChar32 (digitPlus zeroDigit (of_nat d))) \<and>
   sint (digitPlus zeroDigit (of_nat d)) = uint zeroDigit + int d"
  by (simp add: getSymbol_def setDecimalFormatSymbols_symbols open_Some_symbols digit_slot
        sint_digitPlus)

theorem digit_glyphs_contiguous_witness:
  "(9::nat) < 10 \<and>
   getSymbol (fSymbols (snd (NativeDecimalFormat_setDecimalFormatSymbols
       (\<lambda>_. UnicodeString_UChar 0) \<lparr>pending = None\<rparr>
       \<lparr>fSymbols = (\<lambda>_. UnicodeString_UChar 0), fRules = ()\<rparr>
       (Some [0x24]) 0x2E 0x23 (Some [0x45]) 0x2C (Some [0x221E]) (Some [0x55, 0x53, 0x44])
       (Some [0x2D]) 0x2E (Some [0x4E, 0x61, 0x4E]) 0x3B (Some [0x25]) 0x2030 0xFFFF)))
     (digitSymbol 9) = UnicodeString_UChar32 0x10008 \<and>
   snd (NativeDecimalFormat_open
       (\<lambda>_. UnicodeString_UChar 0) True (\<lambda>p s. (U_ZERO_ERROR, ())) \<lparr>pending = None\<rparr>
       (Some [0x23])
       (Some [0x24]) 0x2E 0x23 (Some [0x45]) 0x2C (Some [0x221E]) (Some [0x55, 0x53, 0x44])
       (Some [0x2D]) 0x2E (Some [0x4E, 0x61, 0x4E]) 0x3B (Some [0x25]) 0x2030 0xFFFF) \<noteq> None \<and>
   getSymbol (fSymbols (the (snd (NativeDecimalFormat_open
       (\<lambda>_. UnicodeString_UChar 0) True (\<lambda>p s. (U_ZERO_ERROR, ())) \<lparr>pending = None\<rparr>
       (Some [0x23])
       (Some [0x24]) 0x2E 0x23 (Some [0x45]) 0x2C (Some [0x221E]) (Some [0x55, 0x53, 0x44])
       (Some [0x2D]) 0x2E (Some [0x4E, 0x61, 0x4E]) 0x3B (Some [0x25]) 0x2030 0xFFFF))))
     (digitSymbol 9) = UnicodeString_UChar32 0x10008 \<and>
   sint (digitPlus 0xFFFF 9) = 0x10008"
proof -
  let ?open = "NativeDecimalFormat_open
       (\<lambda>_. UnicodeString_UChar 0) True (\<lambda>p s. (U_ZERO_ERROR, ())) \<lparr>pending = None\<rparr>
       (Some [0x23])
       (Some [0x24]) 0x2E 0x23 (Some [0x45]) 0x2C (Some [0x221E]) (Some [0x55, 0x53, 0x44])
       (Some [0x2D]) 0x2E (Some [0x4E, 0x61, 0x4E]) 0x3B (Some [0x25]) 0x2030 0xFFFF"
  have d: "(9::nat) < 10" by simp
  have opened: "snd ?open \<noteq> None"
    by (rule sample_open_returns)
  then obtain fmt where fmt: "snd ?open = Some fmt" by blast
  have nine: "digitPlus 0xFFFF (of_nat 9) = (0x10008 :: 32 word)"
    by (simp add: digitPlus_def)
  show ?thesis
    using digit_glyphs_contiguous [OF d, of "\<lambda>_. UnicodeString_UChar 0" "\<lparr>pending = None\<rparr>"
        "\<lparr>fSymbols = (\<lambda>_. UnicodeString_UChar 0), fRules = ()\<rparr>"
        "Some [0x24]" "0x2E" "0x23" "Some [0x45]" "0x2C" "Some [0x221E]" "Some [0x55, 0x53, 0x44]"
        "Some [0x2D]" "0x2E" "Some [0x4E, 0x61, 0x4E]" "0x3B" "Some [0x25]" "0x2030" "0xFFFF"
        True "\<lambda>p s. (U_ZERO_ERROR, ())" "Some [0x23]"]
      opened fmt nine
    by simp
qed

text \<open>
  C10. After \<^verbatim>\<open>setDecimalFormatSymbols\<close>, and in every instance that \<^verbatim>\<open>open\<close>
  constructs, the monetary grouping separator is the grouping separator: both slots hold
  the string made of the one \<^verbatim>\<open>groupingSeparator\<close> argument, and no other argument of
  the two calls reaches either slot.
\<close>

theorem monetary_grouping_separator_agrees:
  "getSymbol (fSymbols (snd (NativeDecimalFormat_setDecimalFormatSymbols newSymbols env addr
       cs ds dg es gs inf0 ics ms mds nan ps pc pm zeroDigit))) kMonetaryGroupingSeparatorSymbol
     = getSymbol (fSymbols (snd (NativeDecimalFormat_setDecimalFormatSymbols newSymbols env addr
       cs ds dg es gs inf0 ics ms mds nan ps pc pm zeroDigit))) kGroupingSeparatorSymbol \<and>
   getSymbol (fSymbols (snd (NativeDecimalFormat_setDecimalFormatSymbols newSymbols env addr
       cs ds dg es gs inf0 ics ms mds nan ps pc pm zeroDigit))) kGroupingSeparatorSymbol
     = UnicodeString_UChar gs \<and>
   (\<forall>fmt. snd (NativeDecimalFormat_open newSymbols allocated construct env pattern0
       cs ds dg es gs inf0 ics ms mds nan ps pc pm zeroDigit) = Some fmt \<longrightarrow>
     getSymbol (fSymbols fmt) kMonetaryGroupingSeparatorSymbol
       = getSymbol (fSymbols fmt) kGroupingSeparatorSymbol \<and>
     getSymbol (fSymbols fmt) kGroupingSeparatorSymbol = UnicodeString_UChar gs)"
  by (simp add: getSymbol_def setDecimalFormatSymbols_symbols open_Some_symbols
        makeDecimalFormatSymbols_snd)

theorem monetary_grouping_separator_agrees_witness:
  "snd (NativeDecimalFormat_open
       (\<lambda>_. UnicodeString_UChar 0) True (\<lambda>p s. (U_ZERO_ERROR, ())) \<lparr>pending = None\<rparr>
       (Some [0x23])
       (Some [0x24]) 0x2E 0x23 (Some [0x45]) 0x2C (Some [0x221E]) (Some [0x55, 0x53, 0x44])
       (Some [0x2D]) 0x2E (Some [0x4E, 0x61, 0x4E]) 0x3B (Some [0x25]) 0x2030 0x30) \<noteq> None \<and>
   getSymbol (fSymbols (the (snd (NativeDecimalFormat_open
       (\<lambda>_. UnicodeString_UChar 0) True (\<lambda>p s. (U_ZERO_ERROR, ())) \<lparr>pending = None\<rparr>
       (Some [0x23])
       (Some [0x24]) 0x2E 0x23 (Some [0x45]) 0x2C (Some [0x221E]) (Some [0x55, 0x53, 0x44])
       (Some [0x2D]) 0x2E (Some [0x4E, 0x61, 0x4E]) 0x3B (Some [0x25]) 0x2030 0x30)))) kMonetaryGroupingSeparatorSymbol = UnicodeString_UChar 0x2C \<and>
   getSymbol (fSymbols (the (snd (NativeDecimalFormat_open
       (\<lambda>_. UnicodeString_UChar 0) True (\<lambda>p s. (U_ZERO_ERROR, ())) \<lparr>pending = None\<rparr>
       (Some [0x23])
       (Some [0x24]) 0x2E 0x23 (Some [0x45]) 0x2C (Some [0x221E]) (Some [0x55, 0x53, 0x44])
       (Some [0x2D]) 0x2E (Some [0x4E, 0x61, 0x4E]) 0x3B (Some [0x25]) 0x2030 0x30)))) kGroupingSeparatorSymbol = UnicodeString_UChar 0x2C"
proof -
  let ?open = "NativeDecimalFormat_open
       (\<lambda>_. UnicodeString_UChar 0) True (\<lambda>p s. (U_ZERO_ERROR, ())) \<lparr>pending = None\<rparr>
       (Some [0x23])
       (Some [0x24]) 0x2E 0x23 (Some [0x45]) 0x2C (Some [0x221E]) (Some [0x55, 0x53, 0x44])
       (Some [0x2D]) 0x2E (Some [0x4E, 0x61, 0x4E]) 0x3B (Some [0x25]) 0x2030 0x30"
  have opened: "snd ?open \<noteq> None"
    by (rule sample_open_returns)
  then obtain fmt where fmt: "snd ?open = Some fmt" by blast
  show ?thesis
    using monetary_grouping_separator_agrees [of "\<lambda>_. UnicodeString_UChar 0" "\<lparr>pending = None\<rparr>"
        "\<lparr>fSymbols = (\<lambda>_. UnicodeString_UChar 0), fRules = ()\<rparr>"
        "Some [0x24]" "0x2E" "0x23" "Some [0x45]" "0x2C" "Some [0x221E]" "Some [0x55, 0x53, 0x44]"
        "Some [0x2D]" "0x2E" "Some [0x4E, 0x61, 0x4E]" "0x3B" "Some [0x25]" "0x2030" "0x30"
        True "\<lambda>p s. (U_ZERO_ERROR, ())" "Some [0x23]"]
      opened fmt
    by simp
qed

section \<open>Opening an instance\<close>

lemma open_outcome_failure:
  assumes "allocated"
    and "U_FAILURE (fst (construct (UnicodeString_jstring (Some p)) (snd (makeDecimalFormatSymbols newSymbols env cs ds dg es gs inf0 ics ms mds nan ps pc pm z))))"
  shows "java_outcome (NativeDecimalFormat_open newSymbols allocated construct env (Some p)
           cs ds dg es gs inf0 ics ms mds nan ps pc pm z)
         = Thrown (IcuException ''DecimalFormat::DecimalFormat''
             (fst (construct (UnicodeString_jstring (Some p)) (snd (makeDecimalFormatSymbols newSymbols env cs ds dg es gs inf0 ics ms mds nan ps pc pm z)))))"
  using assms
  by (simp add: NativeDecimalFormat_open_def Let_def split_def new_DecimalFormat_def
        ScopedJavaUnicodeString_def valid_def unicodeString_def maybeThrowIcuException_def
        U_SUCCESS_def U_FAILURE_def java_outcome_def jniThrow_def makeDecimalFormatSymbols_snd)

lemma open_outcome_returned:
  assumes "allocated"
    and "java_outcome (NativeDecimalFormat_open newSymbols allocated construct env pattern0
           cs ds dg es gs inf0 ics ms mds nan ps pc pm z) = Returned h"
  shows "pattern0 \<noteq> None \<and>
         U_SUCCESS (fst (construct (UnicodeString_jstring pattern0) (snd (makeDecimalFormatSymbols newSymbols env cs ds dg es gs inf0 ics ms mds nan ps pc pm z)))) \<and>
         h = Some \<lparr>fSymbols = (snd (makeDecimalFormatSymbols newSymbols env cs ds dg es gs inf0 ics ms mds nan ps pc pm z)),
                   fRules = snd (construct (UnicodeString_jstring pattern0) (snd (makeDecimalFormatSymbols newSymbols env cs ds dg es gs inf0 ics ms mds nan ps pc pm z)))\<rparr>"
proof (cases pattern0)
  case None
  with assms(2) show ?thesis
    by (simp add: NativeDecimalFormat_open_def Let_def split_def
        ScopedJavaUnicodeString_def valid_def java_outcome_def jniThrow_def)
next
  case (Some p)
  with assms show ?thesis
    by (simp add: NativeDecimalFormat_open_def Let_def split_def new_DecimalFormat_def
        ScopedJavaUnicodeString_def valid_def unicodeString_def maybeThrowIcuException_def
        java_outcome_def jniThrow_def makeDecimalFormatSymbols_snd
        split: if_splits option.splits)
qed

text \<open>
  C6, as amended. Provided the instance is allocated: when ICU's constructor reports a
  failure for the pattern (which is how it reports a pattern it cannot compile), the Java
  caller of \<^verbatim>\<open>open\<close> sees the exception raised for that status and no handle; and
  whenever the caller does get a handle back, the pattern was not null, the constructor
  reported success and the handle is the instance constructed from the pattern and the
  symbols. So an allocated instance yields a valid handle or an exception, never a partly
  built result.
\<close>

theorem open_invalid_pattern_fails:
  "allocated \<Longrightarrow>
   (U_FAILURE (fst (construct (UnicodeString_jstring (Some p)) (snd (makeDecimalFormatSymbols newSymbols env cs ds dg es gs inf0 ics ms mds nan ps pc pm z)))) \<longrightarrow>
      java_outcome (NativeDecimalFormat_open newSymbols allocated construct env (Some p)
           cs ds dg es gs inf0 ics ms mds nan ps pc pm z)
         = Thrown (IcuException ''DecimalFormat::DecimalFormat''
             (fst (construct (UnicodeString_jstring (Some p)) (snd (makeDecimalFormatSymbols newSymbols env cs ds dg es gs inf0 ics ms mds nan ps pc pm z)))))) \<and>
   (\<forall>h. java_outcome (NativeDecimalFormat_open newSymbols allocated construct env pattern0
           cs ds dg es gs inf0 ics ms mds nan ps pc pm z) = Returned h \<longrightarrow>
      pattern0 \<noteq> None \<and>
      U_SUCCESS (fst (construct (UnicodeString_jstring pattern0) (snd (makeDecimalFormatSymbols newSymbols env cs ds dg es gs inf0 ics ms mds nan ps pc pm z)))) \<and>
      h = Some \<lparr>fSymbols = (snd (makeDecimalFormatSymbols newSymbols env cs ds dg es gs inf0 ics ms mds nan ps pc pm z)),
                fRules = snd (construct (UnicodeString_jstring pattern0) (snd (makeDecimalFormatSymbols newSymbols env cs ds dg es gs inf0 ics ms mds nan ps pc pm z)))\<rparr>)"
proof -
  assume a: "allocated"
  show ?thesis
  proof (intro conjI impI allI)
    assume "U_FAILURE (fst (construct (UnicodeString_jstring (Some p)) (snd (makeDecimalFormatSymbols newSymbols env cs ds dg es gs inf0 ics ms mds nan ps pc pm z))))"
    then show "java_outcome (NativeDecimalFormat_open newSymbols allocated construct env (Some p)
           cs ds dg es gs inf0 ics ms mds nan ps pc pm z)
         = Thrown (IcuException ''DecimalFormat::DecimalFormat''
             (fst (construct (UnicodeString_jstring (Some p)) (snd (makeDecimalFormatSymbols newSymbols env cs ds dg es gs inf0 ics ms mds nan ps pc pm z)))))"
      by (rule open_outcome_failure [OF a])
  next
    fix h
    assume r: "java_outcome (NativeDecimalFormat_open newSymbols allocated construct env pattern0
           cs ds dg es gs inf0 ics ms mds nan ps pc pm z) = Returned h"
    show "pattern0 \<noteq> None"
      using open_outcome_returned [OF a r] by simp
    show "U_SUCCESS (fst (construct (UnicodeString_jstring pattern0) (snd (makeDecimalFormatSymbols newSymbols env cs ds dg es gs inf0 ics ms mds nan ps pc pm z))))"
      using open_outcome_returned [OF a r] by simp
    show "h = Some \<lparr>fSymbols = (snd (makeDecimalFormatSymbols newSymbols env cs ds dg es gs inf0 ics ms mds nan ps pc pm z)),
                fRules = snd (construct (UnicodeString_jstring pattern0) (snd (makeDecimalFormatSymbols newSymbols env cs ds dg es gs inf0 ics ms mds nan ps pc pm z)))\<rparr>"
      using open_outcome_returned [OF a r] by simp
  qed
qed

theorem open_invalid_pattern_fails_witness:
  "U_FAILURE (fst ((\<lambda>p s. (if p = UnicodeString_jstring (Some [0x2E, 0x2E]) then 3 else U_ZERO_ERROR, ())) (UnicodeString_jstring (Some [0x2E, 0x2E]))
     (snd (makeDecimalFormatSymbols (\<lambda>_. UnicodeString_UChar 0) \<lparr>pending = None\<rparr>
       (Some [0x24]) 0x2E 0x23 (Some [0x45]) 0x2C (Some [0x221E]) (Some [0x55, 0x53, 0x44])
       (Some [0x2D]) 0x2E (Some [0x4E, 0x61, 0x4E]) 0x3B (Some [0x25]) 0x2030 0x30)))) \<and>
   java_outcome (NativeDecimalFormat_open (\<lambda>_. UnicodeString_UChar 0) True
       (\<lambda>p s. (if p = UnicodeString_jstring (Some [0x2E, 0x2E]) then 3 else U_ZERO_ERROR, ())) \<lparr>pending = None\<rparr> (Some [0x2E, 0x2E])
       (Some [0x24]) 0x2E 0x23 (Some [0x45]) 0x2C (Some [0x221E]) (Some [0x55, 0x53, 0x44])
       (Some [0x2D]) 0x2E (Some [0x4E, 0x61, 0x4E]) 0x3B (Some [0x25]) 0x2030 0x30)
     = Thrown (IcuException ''DecimalFormat::DecimalFormat'' 3) \<and>
   java_outcome (NativeDecimalFormat_open (\<lambda>_. UnicodeString_UChar 0) True
       (\<lambda>p s. (if p = UnicodeString_jstring (Some [0x2E, 0x2E]) then 3 else U_ZERO_ERROR, ())) \<lparr>pending = None\<rparr> (Some [0x23])
       (Some [0x24]) 0x2E 0x23 (Some [0x45]) 0x2C (Some [0x221E]) (Some [0x55, 0x53, 0x44])
       (Some [0x2D]) 0x2E (Some [0x4E, 0x61, 0x4E]) 0x3B (Some [0x25]) 0x2030 0x30)
     = Returned (Some \<lparr>fSymbols = snd (makeDecimalFormatSymbols (\<lambda>_. UnicodeString_UChar 0)
         \<lparr>pending = None\<rparr>
       (Some [0x24]) 0x2E 0x23 (Some [0x45]) 0x2C (Some [0x221E]) (Some [0x55, 0x53, 0x44])
       (Some [0x2D]) 0x2E (Some [0x4E, 0x61, 0x4E]) 0x3B (Some [0x25]) 0x2030 0x30), fRules = ()\<rparr>) \<and>
   U_SUCCESS (fst ((\<lambda>p s. (if p = UnicodeString_jstring (Some [0x2E, 0x2E]) then 3 else U_ZERO_ERROR, ())) (UnicodeString_jstring (Some [0x23]))
     (snd (makeDecimalFormatSymbols (\<lambda>_. UnicodeString_UChar 0) \<lparr>pending = None\<rparr>
       (Some [0x24]) 0x2E 0x23 (Some [0x45]) 0x2C (Some [0x221E]) (Some [0x55, 0x53, 0x44])
       (Some [0x2D]) 0x2E (Some [0x4E, 0x61, 0x4E]) 0x3B (Some [0x25]) 0x2030 0x30))))"
proof -
  have bad: "U_FAILURE (fst ((\<lambda>p s. (if p = UnicodeString_jstring (Some [0x2E, 0x2E]) then 3 else U_ZERO_ERROR, ())) (UnicodeString_jstring (Some [0x2E, 0x2E]))
     (snd (makeDecimalFormatSymbols (\<lambda>_. UnicodeString_UChar 0) \<lparr>pending = None\<rparr>
       (Some [0x24]) 0x2E 0x23 (Some [0x45]) 0x2C (Some [0x221E]) (Some [0x55, 0x53, 0x44])
       (Some [0x2D]) 0x2E (Some [0x4E, 0x61, 0x4E]) 0x3B (Some [0x25]) 0x2030 0x30))))"
    by (simp add: U_FAILURE_def U_ZERO_ERROR_def)
  have good: "java_outcome (NativeDecimalFormat_open (\<lambda>_. UnicodeString_UChar 0) True
       (\<lambda>p s. (if p = UnicodeString_jstring (Some [0x2E, 0x2E]) then 3 else U_ZERO_ERROR, ())) \<lparr>pending = None\<rparr> (Some [0x23])
       (Some [0x24]) 0x2E 0x23 (Some [0x45]) 0x2C (Some [0x221E]) (Some [0x55, 0x53, 0x44])
       (Some [0x2D]) 0x2E (Some [0x4E, 0x61, 0x4E]) 0x3B (Some [0x25]) 0x2030 0x30)
     = Returned (Some \<lparr>fSymbols = snd (makeDecimalFormatSymbols (\<lambda>_. UnicodeString_UChar 0)
         \<lparr>pending = None\<rparr>
       (Some [0x24]) 0x2E 0x23 (Some [0x45]) 0x2C (Some [0x221E]) (Some [0x55, 0x53, 0x44])
       (Some [0x2D]) 0x2E (Some [0x4E, 0x61, 0x4E]) 0x3B (Some [0x25]) 0x2030 0x30), fRules = ()\<rparr>)"
    by (simp add: NativeDecimalFormat_open_def Let_def split_def new_DecimalFormat_def
        ScopedJavaUnicodeString_def valid_def unicodeString_def maybeThrowIcuException_def
        U_SUCCESS_def U_ZERO_ERROR_def java_outcome_def makeDecimalFormatSymbols_def)
  show ?thesis
    using bad good
      open_invalid_pattern_fails [where allocated = True
        and construct = "(\<lambda>p s. (if p = UnicodeString_jstring (Some [0x2E, 0x2E]) then 3 else U_ZERO_ERROR, ()))"
        and p = "[0x2E, 0x2E]" and ?pattern0.0 = "Some [0x23]"
        and newSymbols = "\<lambda>_. UnicodeString_UChar 0" and env = "\<lparr>pending = None\<rparr>"
        and cs = "Some [0x24]" and ds = "0x2E" and dg = "0x23" and es = "Some [0x45]"
        and gs = "0x2C" and ?inf0.0 = "Some [0x221E]" and ics = "Some [0x55, 0x53, 0x44]"
        and ms = "Some [0x2D]" and mds = "0x2E" and nan = "Some [0x4E, 0x61, 0x4E]"
        and ps = "0x3B" and pc = "Some [0x25]" and pm = "0x2030" and z = "0x30"]
    by simp
qed

text \<open>
  Without the proviso the statement fails. When ICU's allocator returns NULL the source
  takes the branch \<^verbatim>\<open>if (fmt == NULL) delete symbols\<close>: no constructor has run, the status
  is still \<^verbatim>\<open>U_ZERO_ERROR\<close>, nothing is raised, and the handle 0 is returned. So for the
  pattern ".." and a constructor that rejects it, the Java caller gets the null handle
  back and no exception: neither a valid handle nor a failure.
\<close>

theorem open_unallocated_counterexample:
  "U_FAILURE (fst ((\<lambda>p s. (if p = UnicodeString_jstring (Some [0x2E, 0x2E]) then 3 else U_ZERO_ERROR, ())) (UnicodeString_jstring (Some [0x2E, 0x2E]))
     (snd (makeDecimalFormatSymbols (\<lambda>_. UnicodeString_UChar 0) \<lparr>pending = None\<rparr>
       (Some [0x24]) 0x2E 0x23 (Some [0x45]) 0x2C (Some [0x221E]) (Some [0x55, 0x53, 0x44])
       (Some [0x2D]) 0x2E (Some [0x4E, 0x61, 0x4E]) 0x3B (Some [0x25]) 0x2030 0x30)))) \<and>
   java_outcome (NativeDecimalFormat_open (\<lambda>_. UnicodeString_UChar 0) False
       (\<lambda>p s. (if p = UnicodeString_jstring (Some [0x2E, 0x2E]) then 3 else U_ZERO_ERROR, ())) \<lparr>pending = None\<rparr> (Some [0x2E, 0x2E])
       (Some [0x24]) 0x2E 0x23 (Some [0x45]) 0x2C (Some [0x221E]) (Some [0x55, 0x53, 0x44])
       (Some [0x2D]) 0x2E (Some [0x4E, 0x61, 0x4E]) 0x3B (Some [0x25]) 0x2030 0x30)
     = Returned None"
  by (simp add: NativeDecimalFormat_open_def Let_def split_def new_DecimalFormat_def
        ScopedJavaUnicodeString_def valid_def unicodeString_def maybeThrowIcuException_def
        U_SUCCESS_def U_FAILURE_def U_ZERO_ERROR_def java_outcome_def makeDecimalFormatSymbols_def)

section \<open>The result of a parse\<close>

text \<open>A call whose start offset lies within the text, branch by branch.\<close>

lemma parse_in_range:
  assumes "0 \<le> sint (getIndex position)" "sint (getIndex position) \<le> int (length cs)"
  shows "NativeDecimalFormat_parse fmt_parse env (Some cs) position parseBigDecimal =
    (let res = fst (fmt_parse (UnicodeString_jstring (Some cs)) (ParsePosition_new (getIndex position)));
         pp = snd (fmt_parse (UnicodeString_jstring (Some cs)) (ParsePosition_new (getIndex position)))
     in if getErrorIndex pp = - 1 then
          (env, setIndex position (getIndex pp),
           if parseBigDecimal then
             if U_SUCCESS (fst (getDecimalNumber res)) then
               if strncmp_0 (snd (getDecimalNumber res)) ''NaN'' 3 \<or>
                  strncmp_0 (snd (getDecimalNumber res)) ''Inf'' 3 \<or>
                  strncmp_0 (snd (getDecimalNumber res)) ''-Inf'' 4
               then doubleValueOf (getDouble res)
               else newBigDecimal (snd (getDecimalNumber res)) (length (snd (getDecimalNumber res)))
             else None
           else (case getType res of
                   kDouble \<Rightarrow> doubleValueOf (getDouble res)
                 | kLong \<Rightarrow> longValueOf (scast (getLong res))
                 | kInt64 \<Rightarrow> longValueOf (getInt64 res)
                 | _ \<Rightarrow> None))
        else (env, setErrorIndex position (getErrorIndex pp), None))"
  using assms
  by (simp add: NativeDecimalFormat_parse_def ScopedJavaUnicodeString_def valid_def
        unicodeString_def Let_def split_def split: Formattable_Type.split)

text \<open>
  C9. A call whose start offset is negative or beyond the length of the text returns no
  value at once: ICU's parse is not consulted (the result does not depend on it), nothing
  is raised, and the parse position is left as it was, index and error index alike.
\<close>

theorem parse_start_out_of_range:
  "sint (getIndex position) < 0 \<or> sint (getIndex position) > int (length cs) \<Longrightarrow>
   NativeDecimalFormat_parse fmt_parse env (Some cs) position parseBigDecimal =
     (env, position, None)"
  by (simp add: NativeDecimalFormat_parse_def ScopedJavaUnicodeString_def valid_def Let_def)

theorem parse_start_out_of_range_witness:
  "(sint (getIndex \<lparr>index = 7, errorIndex = - 1\<rparr>) < 0 \<or>
    sint (getIndex \<lparr>index = 7, errorIndex = - 1\<rparr>) > int (length [0x31, 0x32, 0x33 :: jchar])) \<and>
   NativeDecimalFormat_parse
     (\<lambda>s pp. (\<lparr>getType = kLong, getDouble = 0, getLong = 123, getInt64 = 123,
                 getDecimalNumber = (0, ''123'')\<rparr>, pp\<lparr>index := 3\<rparr>))
     \<lparr>pending = None\<rparr> (Some [0x31, 0x32, 0x33]) \<lparr>index = 7, errorIndex = - 1\<rparr> False
   = (\<lparr>pending = None\<rparr>, \<lparr>index = 7, errorIndex = - 1\<rparr>, None)"
proof -
  have h: "sint (getIndex \<lparr>index = 7, errorIndex = - 1\<rparr>) < 0 \<or>
    sint (getIndex \<lparr>index = 7, errorIndex = - 1\<rparr>) > int (length [0x31, 0x32, 0x33 :: jchar])"
    by (simp add: getIndex_def)
  show ?thesis
    using h parse_start_out_of_range [OF h] by simp
qed

text \<open>
  C2, as amended. For a call on a text that is not null, with a start offset within the
  text, the result has exactly one of two shapes and nothing is raised. When ICU reports
  no error (and hands back a number), the call returns a value and sets the index of
  the parse position to ICU's end offset, leaving the error index alone. When ICU
  reports an error offset, the call returns no value and sets the error index to that
  offset, leaving the index alone.
\<close>

theorem parse_result_shapes:
  assumes "0 \<le> sint (getIndex position)" "sint (getIndex position) \<le> int (length cs)"
    and "fmt_parse (UnicodeString_jstring (Some cs)) (ParsePosition_new (getIndex position)) = (res, pp)"
    and "getErrorIndex pp = - 1 \<longrightarrow> numeric_result parseBigDecimal res"
    and "NativeDecimalFormat_parse fmt_parse env (Some cs) position parseBigDecimal
           = (env', position', result)"
  shows "env' = env \<and>
         (getErrorIndex pp = - 1 \<longrightarrow>
            success_shape position position' result \<and> \<not> failure_shape position position' result \<and>
            position' = setIndex position (getIndex pp)) \<and>
         (getErrorIndex pp \<noteq> - 1 \<longrightarrow>
            failure_shape position position' result \<and> \<not> success_shape position position' result \<and>
            position' = setErrorIndex position (getErrorIndex pp))"
proof (cases "getErrorIndex pp = - 1")
  case True
  with assms(4) have num: "numeric_result parseBigDecimal res" by simp
  have "result \<noteq> None"
    using assms(5) num True assms(3)
    by (auto simp add: parse_in_range [OF assms(1,2)] Let_def numeric_result_def
          doubleValueOf_def longValueOf_def newBigDecimal_def split: if_splits)
  moreover have "env' = env" "position' = setIndex position (getIndex pp)"
    using assms(5) True assms(3)
    by (auto simp add: parse_in_range [OF assms(1,2)] Let_def split: if_splits)
  ultimately show ?thesis
    using True
    by (simp add: success_shape_def failure_shape_def getErrorIndex_def setIndex_def)
next
  case False
  have "env' = env" "position' = setErrorIndex position (getErrorIndex pp)" "result = None"
    using assms(5) False assms(3)
    by (auto simp add: parse_in_range [OF assms(1,2)] Let_def)
  then show ?thesis
    using False
    by (simp add: success_shape_def failure_shape_def getErrorIndex_def getIndex_def
          setErrorIndex_def)
qed

theorem parse_result_shapes_witness:
  "0 \<le> sint (getIndex \<lparr>index = 0, errorIndex = - 1\<rparr>) \<and>
   sint (getIndex \<lparr>index = 0, errorIndex = - 1\<rparr>)
     \<le> int (length [0x31, 0x32, 0x33, 0x61, 0x62, 0x63 :: jchar]) \<and>
   numeric_result False \<lparr>getType = kLong, getDouble = 0, getLong = 123, getInt64 = 123,
                 getDecimalNumber = (0, ''123'')\<rparr> \<and>
   NativeDecimalFormat_parse
     (\<lambda>s pp. (\<lparr>getType = kLong, getDouble = 0, getLong = 123, getInt64 = 123,
                 getDecimalNumber = (0, ''123'')\<rparr>, pp\<lparr>index := 3\<rparr>))
     \<lparr>pending = None\<rparr> (Some [0x31, 0x32, 0x33, 0x61, 0x62, 0x63])
     \<lparr>index = 0, errorIndex = - 1\<rparr> False
   = (\<lparr>pending = None\<rparr>, \<lparr>index = 3, errorIndex = - 1\<rparr>, Some (Long 123)) \<and>
   success_shape \<lparr>index = 0, errorIndex = - 1\<rparr> \<lparr>index = 3, errorIndex = - 1\<rparr> (Some (Long 123)) \<and>
   NativeDecimalFormat_parse
     (\<lambda>s pp. (\<lparr>getType = kObject, getDouble = 0, getLong = 0, getInt64 = 0,
                 getDecimalNumber = (1, [])\<rparr>, pp\<lparr>errorIndex := 0\<rparr>))
     \<lparr>pending = None\<rparr> (Some [0x31, 0x32, 0x33, 0x61, 0x62, 0x63])
     \<lparr>index = 0, errorIndex = - 1\<rparr> False
   = (\<lparr>pending = None\<rparr>, \<lparr>index = 0, errorIndex = 0\<rparr>, None) \<and>
   failure_shape \<lparr>index = 0, errorIndex = - 1\<rparr> \<lparr>index = 0, errorIndex = 0\<rparr> None"
proof -
  let ?position = "\<lparr>index = 0, errorIndex = - 1\<rparr>"
  let ?cs = "[0x31, 0x32, 0x33, 0x61, 0x62, 0x63 :: jchar]"
  let ?ok = "(\<lambda>s pp. (\<lparr>getType = kLong, getDouble = 0, getLong = 123, getInt64 = 123,
                 getDecimalNumber = (0, ''123'')\<rparr>, pp\<lparr>index := 3\<rparr>))"
  let ?err = "(\<lambda>s pp. (\<lparr>getType = kObject, getDouble = 0, getLong = 0, getInt64 = 0,
                 getDecimalNumber = (1, [])\<rparr>, pp\<lparr>errorIndex := 0\<rparr>))"
  have lo: "0 \<le> sint (getIndex ?position)" by (simp add: getIndex_def)
  have hi: "sint (getIndex ?position) \<le> int (length ?cs)" by (simp add: getIndex_def)
  have num: "numeric_result False \<lparr>getType = kLong, getDouble = 0, getLong = 123,
      getInt64 = 123, getDecimalNumber = (0, ''123'')\<rparr>"
    by (simp add: numeric_result_def)
  have run_ok: "NativeDecimalFormat_parse ?ok \<lparr>pending = None\<rparr> (Some ?cs) ?position False
      = (\<lparr>pending = None\<rparr>, \<lparr>index = 3, errorIndex = - 1\<rparr>, Some (Long 123))"
    by (simp add: parse_in_range [OF lo hi] Let_def ParsePosition_new_def getIndex_def
          getErrorIndex_def setIndex_def longValueOf_def)
  have run_err: "NativeDecimalFormat_parse ?err \<lparr>pending = None\<rparr> (Some ?cs) ?position False
      = (\<lparr>pending = None\<rparr>, \<lparr>index = 0, errorIndex = 0\<rparr>, None)"
    by (simp add: parse_in_range [OF lo hi] Let_def ParsePosition_new_def getIndex_def
          getErrorIndex_def setErrorIndex_def)
  have shape_ok: "success_shape ?position \<lparr>index = 3, errorIndex = - 1\<rparr> (Some (Long 123))"
    using parse_result_shapes [OF lo hi _ _ run_ok, of _ "ParsePosition_new 0\<lparr>index := 3\<rparr>"] num
    by (simp add: getIndex_def getErrorIndex_def setIndex_def ParsePosition_new_def)
  have shape_err: "failure_shape ?position \<lparr>index = 0, errorIndex = 0\<rparr> None"
    using parse_result_shapes [OF lo hi _ _ run_err, of _ "ParsePosition_new 0\<lparr>errorIndex := 0\<rparr>"]
    by (simp add: getIndex_def getErrorIndex_def setErrorIndex_def ParsePosition_new_def)
  show ?thesis
    using lo hi num run_ok run_err shape_ok shape_err by simp
qed

text \<open>
  The statement without the restriction on the start offset fails: parsing "123" from the
  offset -1 with a fresh parse position returns no value and leaves the error index at
  -1, so the result is a failure that carries no error offset, neither of the two shapes.
\<close>

theorem parse_shapes_counterexample:
  "NativeDecimalFormat_parse
     (\<lambda>s pp. (\<lparr>getType = kLong, getDouble = 0, getLong = 123, getInt64 = 123,
                 getDecimalNumber = (0, ''123'')\<rparr>, pp\<lparr>index := 3\<rparr>))
     \<lparr>pending = None\<rparr> (Some [0x31, 0x32, 0x33]) \<lparr>index = - 1, errorIndex = - 1\<rparr> False
   = (\<lparr>pending = None\<rparr>, \<lparr>index = - 1, errorIndex = - 1\<rparr>, None) \<and>
   \<not> success_shape \<lparr>index = - 1, errorIndex = - 1\<rparr> \<lparr>index = - 1, errorIndex = - 1\<rparr> None \<and>
   \<not> failure_shape \<lparr>index = - 1, errorIndex = - 1\<rparr> \<lparr>index = - 1, errorIndex = - 1\<rparr> None"
  by (simp add: NativeDecimalFormat_parse_def ScopedJavaUnicodeString_def valid_def Let_def
        getIndex_def getErrorIndex_def success_shape_def failure_shape_def)

text \<open>The text of an exact decimal number starts with none of the three special names.\<close>

lemma not_special_of_exact_decimal:
  assumes "exact_decimal s"
  shows "\<not> strncmp_0 s ''NaN'' 3" "\<not> strncmp_0 s ''Inf'' 3" "\<not> strncmp_0 s ''-Inf'' 4"
proof -
  have allowed: "\<And>c. c \<in> set s \<Longrightarrow> c \<in> set ''0123456789+-.E''"
    using assms by (simp add: exact_decimal_def list_all_iff)
  have sub: "\<And>n c. c \<in> set (take n s) \<Longrightarrow> c \<in> set s"
    by (meson in_set_takeD)
  show "\<not> strncmp_0 s ''NaN'' 3"
  proof
    assume "strncmp_0 s ''NaN'' 3"
    then have "CHR ''N'' \<in> set (take 3 s)" by (simp add: strncmp_0_def)
    then show False using allowed sub by fastforce
  qed
  show "\<not> strncmp_0 s ''Inf'' 3"
  proof
    assume "strncmp_0 s ''Inf'' 3"
    then have "CHR ''I'' \<in> set (take 3 s)" by (simp add: strncmp_0_def)
    then show False using allowed sub by fastforce
  qed
  show "\<not> strncmp_0 s ''-Inf'' 4"
  proof
    assume "strncmp_0 s ''-Inf'' 4"
    then have "CHR ''I'' \<in> set (take 4 s)" by (simp add: strncmp_0_def)
    then show False using allowed sub by fastforce
  qed
qed

text \<open>
  C5. With \<^verbatim>\<open>parseBigDecimal\<close> set, a parse that ICU completes without error, and whose
  decimal number can be read, returns a \<^verbatim>\<open>BigDecimal\<close> made of exactly the digits of that
  number when they are the text of an exact decimal, and returns the value as a double
  when the number reads NaN, Infinity or -Infinity.
\<close>

theorem parse_exact_decimal:
  assumes "0 \<le> sint (getIndex position)" "sint (getIndex position) \<le> int (length cs)"
    and "fmt_parse (UnicodeString_jstring (Some cs)) (ParsePosition_new (getIndex position)) = (res, pp)"
    and "getErrorIndex pp = - 1"
    and "getDecimalNumber res = (status, str)"
    and "U_SUCCESS status"
  shows "(str \<in> {''NaN'', ''Infinity'', ''-Infinity''} \<longrightarrow>
            snd (snd (NativeDecimalFormat_parse fmt_parse env (Some cs) position True))
              = Some (Double (getDouble res))) \<and>
         (exact_decimal str \<longrightarrow>
            snd (snd (NativeDecimalFormat_parse fmt_parse env (Some cs) position True))
              = Some (BigDecimal str))"
  using assms not_special_of_exact_decimal [of str]
  by (auto simp add: parse_in_range Let_def doubleValueOf_def newBigDecimal_def strncmp_0_def)

theorem parse_exact_decimal_witness:
  "0 \<le> sint (getIndex \<lparr>index = 0, errorIndex = - 1\<rparr>) \<and>
   sint (getIndex \<lparr>index = 0, errorIndex = - 1\<rparr>) \<le> int (length [0x31, 0x32, 0x2E, 0x35 :: jchar]) \<and>
   U_SUCCESS 0 \<and>
   exact_decimal ''12.5'' \<and>
   snd (snd (NativeDecimalFormat_parse
     (\<lambda>s pp. (\<lparr>getType = kDouble, getDouble = 0x4029000000000000, getLong = 12,
                 getInt64 = 12, getDecimalNumber = (0, ''12.5'')\<rparr>, pp\<lparr>index := 4\<rparr>))
     \<lparr>pending = None\<rparr> (Some [0x31, 0x32, 0x2E, 0x35]) \<lparr>index = 0, errorIndex = - 1\<rparr> True))
   = Some (BigDecimal ''12.5'') \<and>
   ''Infinity'' \<in> {''NaN'', ''Infinity'', ''-Infinity''} \<and>
   snd (snd (NativeDecimalFormat_parse
     (\<lambda>s pp. (\<lparr>getType = kDouble, getDouble = 0x7FF0000000000000, getLong = 0,
                 getInt64 = 0, getDecimalNumber = (0, ''Infinity'')\<rparr>, pp\<lparr>index := 1\<rparr>))
     \<lparr>pending = None\<rparr> (Some [0x221E]) \<lparr>index = 0, errorIndex = - 1\<rparr> True))
   = Some (Double 0x7FF0000000000000)"
proof -
  let ?position = "\<lparr>index = 0, errorIndex = - 1\<rparr>"
  have lo: "0 \<le> sint (getIndex ?position)" by (simp add: getIndex_def)
  have hi: "sint (getIndex ?position) \<le> int (length [0x31, 0x32, 0x2E, 0x35 :: jchar])"
    by (simp add: getIndex_def)
  have hi': "sint (getIndex ?position) \<le> int (length [0x221E :: jchar])"
    by (simp add: getIndex_def)
  have ok: "U_SUCCESS 0" by (simp add: U_SUCCESS_def U_ZERO_ERROR_def)
  have dec: "exact_decimal ''12.5''" by (simp add: exact_decimal_def)
  have special: "''Infinity'' \<in> {''NaN'', ''Infinity'', ''-Infinity''}" by simp
  have noerr4: "getErrorIndex (ParsePosition_new 0\<lparr>index := 4\<rparr>) = - 1"
    by (simp add: getErrorIndex_def ParsePosition_new_def)
  have noerr1: "getErrorIndex (ParsePosition_new 0\<lparr>index := 1\<rparr>) = - 1"
    by (simp add: getErrorIndex_def ParsePosition_new_def)
  have a: "snd (snd (NativeDecimalFormat_parse
     (\<lambda>s pp. (\<lparr>getType = kDouble, getDouble = 0x4029000000000000, getLong = 12,
                 getInt64 = 12, getDecimalNumber = (0, ''12.5'')\<rparr>, pp\<lparr>index := 4\<rparr>))
     \<lparr>pending = None\<rparr> (Some [0x31, 0x32, 0x2E, 0x35]) ?position True))
   = Some (BigDecimal ''12.5'')"
    using parse_exact_decimal [OF lo hi _ noerr4 _ ok,
        where fmt_parse = "(\<lambda>s pp. (\<lparr>getType = kDouble, getDouble = 0x4029000000000000, getLong = 12,
                 getInt64 = 12, getDecimalNumber = (0, ''12.5'')\<rparr>, pp\<lparr>index := 4\<rparr>))" and str = "''12.5''"
          and res = "\<lparr>getType = kDouble, getDouble = 0x4029000000000000, getLong = 12,
                 getInt64 = 12, getDecimalNumber = (0, ''12.5'')\<rparr>"
          and env = "\<lparr>pending = None\<rparr>"] dec
    by (simp add: getIndex_def ParsePosition_new_def)
  have b: "snd (snd (NativeDecimalFormat_parse
     (\<lambda>s pp. (\<lparr>getType = kDouble, getDouble = 0x7FF0000000000000, getLong = 0,
                 getInt64 = 0, getDecimalNumber = (0, ''Infinity'')\<rparr>, pp\<lparr>index := 1\<rparr>))
     \<lparr>pending = None\<rparr> (Some [0x221E]) ?position True))
   = Some (Double 0x7FF0000000000000)"
    using parse_exact_decimal [OF lo hi' _ noerr1 _ ok,
        where fmt_parse = "(\<lambda>s pp. (\<lparr>getType = kDouble, getDouble = 0x7FF0000000000000, getLong = 0,
                 getInt64 = 0, getDecimalNumber = (0, ''Infinity'')\<rparr>, pp\<lparr>index := 1\<rparr>))" and str = "''Infinity''"
          and res = "\<lparr>getType = kDouble, getDouble = 0x7FF0000000000000, getLong = 0,
                 getInt64 = 0, getDecimalNumber = (0, ''Infinity'')\<rparr>"
          and env = "\<lparr>pending = None\<rparr>"]
    by (simp add: getIndex_def ParsePosition_new_def)
  show ?thesis
    using lo hi ok dec special a b by simp
qed

end
